theory Spec2Isabelle
  imports Main "HOL-Library.Sublist"
begin

section \<open>Data model (types.ts)\<close>

text \<open>
  JavaScript strings are modelled as \<^typ>\<open>string\<close>: a character stands for the
  code unit of the same number, so the model covers the strings whose code units are
  below 256 (U+0000 to U+00FF).  All string literals the program matches against are
  ASCII.
\<close>

datatype aspect_ratio = AR_1_1 | AR_3_4 | AR_4_3 | AR_9_16 | AR_16_9

text \<open>\<^verbatim>\<open>referenceImage?: { data: string; mimeType: string }\<close>\<close>

record reference_image =
  ref_data :: string
  ref_mimeType :: string

text \<open>\<^verbatim>\<open>interface ImageGenerationConfig\<close>\<close>

record image_generation_config =
  prompt :: string
  numberOfImages :: int
  outputMimeType :: string
  aspectRatio :: aspect_ratio
  referenceImage :: "reference_image option"

text \<open>\<^verbatim>\<open>interface HistoryItem\<close>\<close>

record history_item =
  imageUrl :: string
  item_prompt :: string
  item_aspectRatio :: aspect_ratio
  imageStyle :: string
  referenceImageUrl :: "string option"

section \<open>History list (ImageGenerator component)\<close>

text \<open>
  The state update of \<^verbatim>\<open>handleGenerateImage\<close> after a successful generation:
  \<^verbatim>\<open>setHistory(prev => [newHistoryItem, ...prev.filter(item => item.imageUrl !== imageUrl).slice(0, 19)])\<close>
  where \<^verbatim>\<open>imageUrl\<close> is the \<^verbatim>\<open>imageUrl\<close> field of \<^verbatim>\<open>newHistoryItem\<close>.
\<close>

definition recordHistory :: "history_item \<Rightarrow> history_item list \<Rightarrow> history_item list" where
  "recordHistory newHistoryItem prev =
     newHistoryItem # take 19 (filter (\<lambda>item. imageUrl item \<noteq> imageUrl newHistoryItem) prev)"

text \<open>A sequence of record operations, applied oldest first.\<close>

fun recordAll :: "history_item list \<Rightarrow> history_item list \<Rightarrow> history_item list" where
  "recordAll prev [] = prev"
| "recordAll prev (e # es) = recordAll (recordHistory e prev) es"

text \<open>
  \<^verbatim>\<open>handleDeleteHistoryItem\<close>:
  \<^verbatim>\<open>setHistory(prev => prev.filter((_, index) => index !== indexToDelete))\<close>.
  The callback sees every element with its position; positions are the naturals
  \<open>0 .. length prev - 1\<close>, the argument is any integer.
\<close>

definition handleDeleteHistoryItem :: "int \<Rightarrow> history_item list \<Rightarrow> history_item list" where
  "handleDeleteHistoryItem indexToDelete prev =
     map snd (filter (\<lambda>(index, _). int index \<noteq> indexToDelete) (enumerate 0 prev))"

text \<open>Concrete entries used to run the definitions.\<close>

definition sampleItem :: "string \<Rightarrow> string \<Rightarrow> history_item" where
  "sampleItem url p =
     \<lparr>imageUrl = url, item_prompt = p, item_aspectRatio = AR_1_1,
      imageStyle = ''default'', referenceImageUrl = None\<rparr>"

section \<open>JavaScript string operations\<close>

text \<open>\<^verbatim>\<open>s.startsWith(p)\<close>\<close>

definition js_startsWith :: "string \<Rightarrow> string \<Rightarrow> bool" where
  "js_startsWith s p = prefix p s"

text \<open>\<^verbatim>\<open>s.includes(p)\<close>: \<open>p\<close> occurs in \<open>s\<close> as a contiguous run.\<close>

fun js_includes :: "string \<Rightarrow> string \<Rightarrow> bool" where
  "js_includes [] p = (p = [])"
| "js_includes (c # cs) p = (prefix p (c # cs) \<or> js_includes cs p)"

text \<open>
  \<^verbatim>\<open>s.toLowerCase()\<close> on code units below 256: each of the letters A-Z, and each
  of the capital letters U+00C0 to U+00DE other than the multiplication sign U+00D7,
  becomes its small letter (32 further on); every other character stays.
\<close>

definition upperLetters :: string where
  "upperLetters =
     ''ABCDEFGHIJKLMNOPQRSTUVWXYZ'' @
       [
         CHR 0xC0, CHR 0xC1, CHR 0xC2, CHR 0xC3, CHR 0xC4, CHR 0xC5, CHR 0xC6, CHR 0xC7,
         CHR 0xC8, CHR 0xC9, CHR 0xCA, CHR 0xCB, CHR 0xCC, CHR 0xCD, CHR 0xCE, CHR 0xCF,
         CHR 0xD0, CHR 0xD1, CHR 0xD2, CHR 0xD3, CHR 0xD4, CHR 0xD5, CHR 0xD6, CHR 0xD8,
         CHR 0xD9, CHR 0xDA, CHR 0xDB, CHR 0xDC, CHR 0xDD, CHR 0xDE]"

definition lowerLetters :: string where
  "lowerLetters =
     ''abcdefghijklmnopqrstuvwxyz'' @
       [
         CHR 0xE0, CHR 0xE1, CHR 0xE2, CHR 0xE3, CHR 0xE4, CHR 0xE5, CHR 0xE6, CHR 0xE7,
         CHR 0xE8, CHR 0xE9, CHR 0xEA, CHR 0xEB, CHR 0xEC, CHR 0xED, CHR 0xEE, CHR 0xEF,
         CHR 0xF0, CHR 0xF1, CHR 0xF2, CHR 0xF3, CHR 0xF4, CHR 0xF5, CHR 0xF6, CHR 0xF8,
         CHR 0xF9, CHR 0xFA, CHR 0xFB, CHR 0xFC, CHR 0xFD, CHR 0xFE]"

definition lowerChar :: "char \<Rightarrow> char" where
  "lowerChar c =
     (case map_of (zip upperLetters lowerLetters) c of
        Some l \<Rightarrow> l
      | None \<Rightarrow> c)"

definition js_toLowerCase :: "string \<Rightarrow> string" where
  "js_toLowerCase s = map lowerChar s"

text \<open>\<^verbatim>\<open>s.replace(p, r)\<close> with a string pattern: the first occurrence only.\<close>

fun js_replace :: "string \<Rightarrow> string \<Rightarrow> string \<Rightarrow> string" where
  "js_replace [] p r = (if p = [] then r else [])"
| "js_replace (c # cs) p r =
     (if prefix p (c # cs) then r @ drop (length p) (c # cs) else c # js_replace cs p r)"

text \<open>\<^verbatim>\<open>xs.join(sep)\<close>\<close>

fun js_join :: "string \<Rightarrow> string list \<Rightarrow> string" where
  "js_join sep [] = []"
| "js_join sep [x] = x"
| "js_join sep (x # y # ys) = x @ sep @ js_join sep (y # ys)"

text \<open>
  \<^verbatim>\<open>s.trim()\<close>: white space and line terminators are removed at both ends.  Below
  256 these are tab (9), line feed (10), vertical tab (11), form feed (12), carriage
  return (13), space (32) and the no-break space U+00A0 (160).
\<close>

definition js_isWhiteSpace :: "char \<Rightarrow> bool" where
  "js_isWhiteSpace c = ((of_char c :: nat) \<in> {9, 10, 11, 12, 13, 32, 160})"

definition js_trim :: "string \<Rightarrow> string" where
  "js_trim s = rev (dropWhile js_isWhiteSpace (rev (dropWhile js_isWhiteSpace s)))"

text \<open>
  Truthiness of an optional string (\<^verbatim>\<open>undefined\<close> and \<^verbatim>\<open>''\<close> are falsy), and
  \<^verbatim>\<open>a || b\<close> on such values.
\<close>

fun truthy :: "string option \<Rightarrow> bool" where
  "truthy None = False"
| "truthy (Some s) = (s \<noteq> [])"

fun js_or :: "string option \<Rightarrow> string \<Rightarrow> string" where
  "js_or None d = d"
| "js_or (Some s) d = (if s \<noteq> [] then s else d)"

text \<open>\<^verbatim>\<open>xs?.[0]\<close> on an optional array.\<close>

fun firstElement :: "'a list option \<Rightarrow> 'a option" where
  "firstElement None = None"
| "firstElement (Some []) = None"
| "firstElement (Some (x # _)) = Some x"

section \<open>The upstream service as the program reads it (geminiService.ts)\<close>

text \<open>
  A value thrown in JavaScript: an instance of \<^verbatim>\<open>Error\<close> with its message, or any
  other value together with its \<^verbatim>\<open>message\<close> property when that is a string.
\<close>

datatype js_thrown = Error string | Thrown "string option"

text \<open>
  The fields of the responses that the program reads.  A safety rating is a pair of
  strings: the program calls \<^verbatim>\<open>replace\<close> on \<^verbatim>\<open>r.category\<close> and prints
  \<^verbatim>\<open>r.probability\<close>.
\<close>

record safety_rating =
  category :: string
  probability :: string

record prompt_feedback =
  blockReason :: "string option"
  pf_safetyRatings :: "safety_rating list option"

record image_payload =
  imageBytes :: "string option"
  image_mimeType :: "string option"

record generated_image =
  gi_finishReason :: "string option"
  gi_safetyRatings :: "safety_rating list option"
  image :: "image_payload option"

record generate_images_response =
  gir_promptFeedback :: "prompt_feedback option"
  generatedImages :: "generated_image list option"

record inline_data =
  inline_bytes :: string
  inline_mimeType :: "string option"

record response_part =
  part_text :: "string option"
  inlineData :: "inline_data option"

record candidate =
  cand_finishReason :: "string option"
  cand_safetyRatings :: "safety_rating list option"
  content_parts :: "response_part list option"

record generate_content_response =
  promptFeedback :: "prompt_feedback option"
  candidates :: "candidate list option"

text \<open>The two requests the program sends.\<close>

record generate_images_request =
  gi_model :: string
  gi_prompt :: string
  gi_numberOfImages :: int
  gi_outputMimeType :: string
  gi_aspectRatio :: aspect_ratio

datatype request_part = InlineDataPart string string | TextPart string

record generate_content_request =
  gc_model :: string
  gc_parts :: "request_part list"
  gc_responseModalities :: "string list"

datatype upstream_call =
  GenerateImages generate_images_request
| GenerateContent generate_content_request

text \<open>
  \<^verbatim>\<open>ai.models\<close>: each operation answers a request with a response or throws.
\<close>

record google_gen_ai =
  generateImages :: "generate_images_request \<Rightarrow> js_thrown + generate_images_response"
  generateContent :: "generate_content_request \<Rightarrow> js_thrown + generate_content_response"

text \<open>
  What a call of the service leaves behind: the upstream calls it made, the events it
  dispatched on \<^verbatim>\<open>window\<close>, and how its promise settled (\<open>Inl\<close>: rejected with the
  thrown value, \<open>Inr\<close>: resolved with the data URL).
\<close>

record generation_outcome =
  upstreamCalls :: "upstream_call list"
  windowEvents :: "string list"
  settled :: "js_thrown + string"

section \<open>Response normalisation\<close>

text \<open>
  \<^verbatim>\<open>ratings?.map(r => `${r.category.replace('HARM_CATEGORY_', '')}: ${r.probability}`).join(', ')\<close>,
  written out four times in the source.
\<close>

definition safetyRatingsText :: "safety_rating list option \<Rightarrow> string option" where
  "safetyRatingsText ratings =
     map_option
       (\<lambda>rs. js_join '', ''
          (map (\<lambda>r. js_replace (category r) ''HARM_CATEGORY_'' [] @ '': '' @ probability r) rs))
       ratings"

text \<open>\<^verbatim>\<open>if (safetyRatings) { message += ` Details: ...` }\<close>\<close>

definition withDetails :: "string \<Rightarrow> string option \<Rightarrow> string" where
  "withDetails message safetyRatings =
     (case safetyRatings of
        None \<Rightarrow> message
      | Some details \<Rightarrow>
          if details \<noteq> []
          then message @ '' Details: '' @ details @ ''. Please modify your prompt and try again.''
          else message)"

text \<open>
  \<^verbatim>\<open>if (response.promptFeedback?.blockReason) { ... throw new Error(message) }\<close>:
  the message thrown, if any.  The block is the same in both paths.
\<close>

definition promptBlocked :: "prompt_feedback option \<Rightarrow> string option" where
  "promptBlocked feedback =
     (case feedback of
        None \<Rightarrow> None
      | Some f \<Rightarrow>
          (case blockReason f of
             None \<Rightarrow> None
           | Some reason \<Rightarrow>
               if reason \<noteq> []
               then Some (withDetails
                      (''Your prompt was blocked before generation for safety reasons ('' @ reason @ '').'')
                      (safetyRatingsText (pf_safetyRatings f)))
               else None))"

text \<open>\<^verbatim>\<open>response.promptFeedback?.blockReason\<close> is truthy.\<close>

definition hasBlockReason :: "prompt_feedback option \<Rightarrow> bool" where
  "hasBlockReason feedback = truthy (Option.bind feedback blockReason)"

text \<open>
  The first test of the classification, on the lower-cased message:
  \<^verbatim>\<open>includes("api key not valid") || includes("403") || includes("permission_denied") || includes("requested entity was not found")\<close>.
\<close>

definition indicatesInvalidKey :: "string \<Rightarrow> bool" where
  "indicatesInvalidKey lowerCaseMessage =
     (js_includes lowerCaseMessage ''api key not valid''
      \<or> js_includes lowerCaseMessage ''403''
      \<or> js_includes lowerCaseMessage ''permission_denied''
      \<or> js_includes lowerCaseMessage ''requested entity was not found'')"

text \<open>
  The classification of a failure that is not rethrown as it is: the events dispatched
  and the message of the new \<^verbatim>\<open>Error\<close>.  The same text in both catch blocks.
\<close>

definition userFriendlyMessage :: "js_thrown \<Rightarrow> string list \<times> string" where
  "userFriendlyMessage error =
     (case error of
        Error message \<Rightarrow>
          (let lowerCaseMessage = js_toLowerCase message in
           if indicatesInvalidKey lowerCaseMessage
           then ([''apiKeyError''],
                 ''API Key is invalid or not authorized. Please ensure your key is correct and has the required permissions.'')
           else if js_includes lowerCaseMessage ''429'' \<or> js_includes lowerCaseMessage ''quota''
           then ([], ''You have exceeded your API usage quota. Please check your account status and billing.'')
           else if js_includes lowerCaseMessage ''500'' \<or> js_includes lowerCaseMessage ''503''
                   \<or> js_includes lowerCaseMessage ''unavailable''
           then ([], ''The image generation service is temporarily unavailable. Please try again in a few moments.'')
           else ([], ''An unexpected error occurred. Details: '' @ message))
      | Thrown m \<Rightarrow>
          (if truthy m
           then ([], ''An unexpected error occurred. Details: '' @ js_or m [])
           else ([], ''Failed to generate image due to a network or server error.'')))"

subsection \<open>generateTextToImage\<close>

definition textToImageRequest :: "image_generation_config \<Rightarrow> generate_images_request" where
  "textToImageRequest config =
     \<lparr>gi_model = ''imagen-4.0-generate-001'',
      gi_prompt = prompt config,
      gi_numberOfImages = numberOfImages config,
      gi_outputMimeType = outputMimeType config,
      gi_aspectRatio = aspectRatio config\<rparr>"

text \<open>The body of the \<^verbatim>\<open>try\<close> block after the response has arrived.\<close>

definition textToImageResult ::
  "image_generation_config \<Rightarrow> generate_images_response \<Rightarrow> js_thrown + string" where
  "textToImageResult config response =
     (case promptBlocked (gir_promptFeedback response) of
        Some message \<Rightarrow> Inl (Error message)
      | None \<Rightarrow>
          (case firstElement (generatedImages response) of
             None \<Rightarrow>
               Inl (Error ''No image data was returned from the API. The prompt may be too complex or the model refused the request.'')
           | Some generatedImage \<Rightarrow>
               if truthy (gi_finishReason generatedImage)
                  \<and> gi_finishReason generatedImage \<noteq> Some ''SUCCESS''
               then
                 (let reason = js_or (gi_finishReason generatedImage) [] in
                  if reason = ''SAFETY''
                  then Inl (Error (withDetails ''The generated content was blocked for safety reasons.''
                                     (safetyRatingsText (gi_safetyRatings generatedImage))))
                  else Inl (Error (''Image generation failed. Reason: '' @ reason @ ''.'')))
               else
                 (case image generatedImage of
                    None \<Rightarrow>
                      Inl (Error ''The API response did not contain image data, despite reporting success.'')
                  | Some img \<Rightarrow>
                      if \<not> truthy (imageBytes img)
                      then Inl (Error ''The API response did not contain image data, despite reporting success.'')
                      else
                        (let mimeType = js_or (image_mimeType img)
                                          (js_or (Some (outputMimeType config)) ''image/jpeg'')
                         in Inr (''data:'' @ mimeType @ '';base64,'' @ js_or (imageBytes img) [])))))"

text \<open>
  The \<^verbatim>\<open>catch\<close> block.  An \<^verbatim>\<open>Error\<close> whose message starts with one of the
  texts the \<^verbatim>\<open>try\<close> block throws is rethrown as it is.
\<close>

definition textToImageClassified :: "string \<Rightarrow> bool" where
  "textToImageClassified message =
     (js_startsWith message ''Your prompt was blocked''
      \<or> js_startsWith message ''The generated content was blocked''
      \<or> js_startsWith message ''Image generation failed''
      \<or> js_startsWith message ''No image data was returned''
      \<or> js_startsWith message ''The API response did not contain image data'')"

definition catchTextToImage :: "js_thrown \<Rightarrow> string list \<times> (js_thrown + string)" where
  "catchTextToImage error =
     (case error of
        Error message \<Rightarrow>
          if textToImageClassified message
          then ([], Inl error)
          else (fst (userFriendlyMessage error), Inl (Error (snd (userFriendlyMessage error))))
      | Thrown m \<Rightarrow>
          (fst (userFriendlyMessage error), Inl (Error (snd (userFriendlyMessage error)))))"

definition generateTextToImage :: "google_gen_ai \<Rightarrow> image_generation_config \<Rightarrow> generation_outcome" where
  "generateTextToImage ai config =
     (let request = textToImageRequest config;
          attempt = (case generateImages ai request of
                       Inl error \<Rightarrow> Inl error
                     | Inr response \<Rightarrow> textToImageResult config response);
          caught = (case attempt of
                      Inl error \<Rightarrow> catchTextToImage error
                    | Inr url \<Rightarrow> ([], Inr url))
      in \<lparr>upstreamCalls = [GenerateImages request],
          windowEvents = fst caught,
          settled = snd caught\<rparr>)"

subsection \<open>generateWithReferenceImage\<close>

definition referenceImageRequest :: "image_generation_config \<Rightarrow> generate_content_request" where
  "referenceImageRequest config =
     \<lparr>gc_model = ''gemini-2.5-flash-image'',
      gc_parts =
        (case referenceImage config of
           Some ref \<Rightarrow> [InlineDataPart (ref_data ref) (ref_mimeType ref)]
         | None \<Rightarrow> [])
        @ [TextPart (prompt config)],
      gc_responseModalities = [''IMAGE'']\<rparr>"

text \<open>
  \<^verbatim>\<open>for (const part of candidate.content.parts) { if (part.inlineData) { return ... } }\<close>
\<close>

fun firstInlineImage :: "response_part list \<Rightarrow> string option" where
  "firstInlineImage [] = None"
| "firstInlineImage (part # rest) =
     (case inlineData part of
        Some d \<Rightarrow> Some (''data:'' @ js_or (inline_mimeType d) ''image/jpeg'' @ '';base64,'' @ inline_bytes d)
      | None \<Rightarrow> firstInlineImage rest)"

text \<open>
  The parts the loop visits: those of \<^verbatim>\<open>candidate.content?.parts\<close>, none when
  that is absent.
\<close>

definition candidateParts :: "candidate \<Rightarrow> response_part list" where
  "candidateParts cand = (case content_parts cand of None \<Rightarrow> [] | Some ps \<Rightarrow> ps)"

definition referenceImageResult :: "generate_content_response \<Rightarrow> js_thrown + string" where
  "referenceImageResult response =
     (case promptBlocked (promptFeedback response) of
        Some message \<Rightarrow> Inl (Error message)
      | None \<Rightarrow>
          (case firstElement (candidates response) of
             None \<Rightarrow> Inl (Error (''Image generation was stopped. Reason: '' @ ''UNKNOWN_REASON'' @ ''.''))
           | Some cand \<Rightarrow>
               if truthy (cand_finishReason cand) \<and> cand_finishReason cand \<noteq> Some ''STOP''
               then
                 (let reason = js_or (cand_finishReason cand) ''UNKNOWN_REASON'' in
                  if reason = ''SAFETY''
                  then Inl (Error (withDetails ''The generated content was blocked for safety reasons.''
                                     (safetyRatingsText (cand_safetyRatings cand))))
                  else Inl (Error (''Image generation was stopped. Reason: '' @ reason @ ''.'')))
               else
                 (case firstInlineImage (candidateParts cand) of
                    Some url \<Rightarrow> Inr url
                  | None \<Rightarrow>
                      Inl (Error ''No image data was returned from the API. This can happen if the prompt is too complex or the model is unable to generate an image for your request.''))))"

definition withReferenceClassified :: "string \<Rightarrow> bool" where
  "withReferenceClassified message =
     (js_startsWith message ''Your prompt was blocked''
      \<or> js_startsWith message ''The generated content was blocked''
      \<or> js_startsWith message ''Image generation was stopped''
      \<or> js_startsWith message ''No image data was returned'')"

definition catchWithReferenceImage :: "js_thrown \<Rightarrow> string list \<times> (js_thrown + string)" where
  "catchWithReferenceImage error =
     (case error of
        Error message \<Rightarrow>
          if withReferenceClassified message
          then ([], Inl error)
          else (fst (userFriendlyMessage error), Inl (Error (snd (userFriendlyMessage error))))
      | Thrown m \<Rightarrow>
          (fst (userFriendlyMessage error), Inl (Error (snd (userFriendlyMessage error)))))"

definition generateWithReferenceImage ::
  "google_gen_ai \<Rightarrow> image_generation_config \<Rightarrow> generation_outcome" where
  "generateWithReferenceImage ai config =
     (let request = referenceImageRequest config;
          attempt = (case generateContent ai request of
                       Inl error \<Rightarrow> Inl error
                     | Inr response \<Rightarrow> referenceImageResult response);
          caught = (case attempt of
                      Inl error \<Rightarrow> catchWithReferenceImage error
                    | Inr url \<Rightarrow> ([], Inr url))
      in \<lparr>upstreamCalls = [GenerateContent request],
          windowEvents = fst caught,
          settled = snd caught\<rparr>)"

subsection \<open>generateImage\<close>

text \<open>
  Modelled from the spec: the source text of \<^verbatim>\<open>generateImage\<close> ends inside the
  function, after \<^verbatim>\<open>if (config.referenceImage) { return generateWithReferenceImage(ai, config); } else {\<close>.
  The missing \<^verbatim>\<open>else\<close> branch is taken from the function's own documentation
  ("routes to a text-to-image model (Imagen) if no reference image is provided") and from
  the decision rule of the specification ("otherwise dispatch to the text-only path").
  The client \<^verbatim>\<open>ai\<close>, which the function constructs from the API key, is a parameter.
\<close>

definition generateImage :: "google_gen_ai \<Rightarrow> image_generation_config \<Rightarrow> generation_outcome" where
  "generateImage ai config =
     (case referenceImage config of
        Some ref \<Rightarrow> generateWithReferenceImage ai config
      | None \<Rightarrow> generateTextToImage ai config)"

section \<open>The ImageGenerator component: state and handlers\<close>

text \<open>\<^verbatim>\<open>useState<{ url: string; data: string; mimeType: string } | null>\<close>\<close>

record stored_reference =
  stored_url :: string
  stored_data :: string
  stored_mimeType :: string

text \<open>The \<^verbatim>\<open>useState\<close> cells of the component.\<close>

record component_state =
  st_prompt :: string
  generatedImageUrl :: "string option"
  isLoading :: bool
  st_error :: "string option"
  st_aspectRatio :: aspect_ratio
  st_imageStyle :: string
  history :: "history_item list"
  st_referenceImage :: "stored_reference option"

text \<open>
  The optional argument of \<^verbatim>\<open>handleGenerateImage\<close>:
  \<^verbatim>\<open>{ p: string, ar: ..., is: string, refImgUrl?: string }\<close>.
\<close>

record generate_options =
  opt_p :: string
  opt_ar :: aspect_ratio
  opt_is :: string
  opt_refImgUrl :: "string option"

text \<open>
  What one run of \<^verbatim>\<open>handleGenerateImage\<close> leaves behind: the configurations it passed
  to \<^verbatim>\<open>generateImage\<close>, and the state after all its updates.
\<close>

record handler_outcome =
  generateImageCalls :: "image_generation_config list"
  finalState :: component_state

text \<open>\<^verbatim>\<open>err.message\<close>\<close>

fun thrownMessage :: "js_thrown \<Rightarrow> string option" where
  "thrownMessage (Error message) = Some message"
| "thrownMessage (Thrown m) = m"

text \<open>
  \<^verbatim>\<open>handleGenerateImage\<close>.  The imported \<^verbatim>\<open>generateImage\<close> is the parameter
  \<open>generate\<close>; the component reads only how its promise settles.
\<close>

definition handleGenerateImage ::
  "(image_generation_config \<Rightarrow> generation_outcome) \<Rightarrow> generate_options option
     \<Rightarrow> component_state \<Rightarrow> handler_outcome" where
  "handleGenerateImage generate options st =
     (let currentPrompt = (case options of Some opts \<Rightarrow> opt_p opts | None \<Rightarrow> st_prompt st);
          currentAspectRatio = (case options of Some opts \<Rightarrow> opt_ar opts | None \<Rightarrow> st_aspectRatio st);
          currentImageStyle = (case options of Some opts \<Rightarrow> opt_is opts | None \<Rightarrow> st_imageStyle st);
          currentRefImage =
            (if truthy (Option.bind options opt_refImgUrl)
             then st_referenceImage st else st_referenceImage st)
      in if js_trim currentPrompt = []
         then \<lparr>generateImageCalls = [],
               finalState = st\<lparr>st_error := Some ''Please enter a prompt to generate an image.''\<rparr>\<rparr>
         else
           (let st1 = st\<lparr>isLoading := True, st_error := None, generatedImageUrl := None\<rparr>;
                finalPrompt =
                  (if currentImageStyle = ''default''
                   then currentPrompt
                   else currentPrompt @ '', in a '' @ currentImageStyle @ '' style'');
                config =
                  \<lparr>prompt = finalPrompt,
                   numberOfImages = 1,
                   outputMimeType = ''image/jpeg'',
                   aspectRatio = currentAspectRatio,
                   referenceImage =
                     map_option
                       (\<lambda>r. \<lparr>ref_data = stored_data r, ref_mimeType = stored_mimeType r\<rparr>)
                       currentRefImage\<rparr>;
                st2 =
                  (case settled (generate config) of
                     Inr url \<Rightarrow>
                       st1\<lparr>generatedImageUrl := Some url,
                           history :=
                             recordHistory
                               \<lparr>imageUrl = url,
                                item_prompt = currentPrompt,
                                item_aspectRatio = currentAspectRatio,
                                imageStyle = currentImageStyle,
                                referenceImageUrl = map_option stored_url currentRefImage\<rparr>
                               (history st1)\<rparr>
                   | Inl err \<Rightarrow>
                       st1\<lparr>st_error :=
                             Some (js_or (thrownMessage err) ''Failed to generate image. Please try again.'')\<rparr>)
            in \<lparr>generateImageCalls = [config], finalState = st2\<lparr>isLoading := False\<rparr>\<rparr>))"

text \<open>
  The initializer of the \<^verbatim>\<open>history\<close> state.  \<open>getItem\<close> is the outcome of
  \<^verbatim>\<open>localStorage.getItem('history')\<close> (it throws, or returns \<^verbatim>\<open>null\<close> or a string);
  \<open>JSON_parse\<close> is the environment's \<^verbatim>\<open>JSON.parse\<close>, read at the declared type of
  the state, \<^verbatim>\<open>HistoryItem[]\<close>: it throws or returns the parsed list.  The result is
  a sum so that an error leaving the initializer would be visible as \<open>Inl\<close>.
\<close>

definition historyInitializer ::
  "(string \<Rightarrow> js_thrown + history_item list) \<Rightarrow> js_thrown + string option
     \<Rightarrow> js_thrown + history_item list" where
  "historyInitializer JSON_parse getItem =
     (let attempt =
            (case getItem of
               Inl e \<Rightarrow> Inl e
             | Inr savedHistory \<Rightarrow>
                 (case savedHistory of
                    None \<Rightarrow> Inr []
                  | Some text \<Rightarrow> if text \<noteq> [] then JSON_parse text else Inr []))
      in case attempt of
           Inl e \<Rightarrow> Inr []
         | Inr parsed \<Rightarrow> Inr parsed)"

section \<open>Concrete inputs\<close>

definition sampleConfig :: image_generation_config where
  "sampleConfig =
     \<lparr>prompt = ''a red fox'', numberOfImages = 1, outputMimeType = ''image/jpeg'',
      aspectRatio = AR_16_9, referenceImage = None\<rparr>"

definition sampleReference :: reference_image where
  "sampleReference = \<lparr>ref_data = ''QUJD'', ref_mimeType = ''image/png''\<rparr>"

definition sampleConfigWithReference :: image_generation_config where
  "sampleConfigWithReference = sampleConfig\<lparr>referenceImage := Some sampleReference\<rparr>"

text \<open>A client whose two operations throw the given value.\<close>

definition throwingAi :: "js_thrown \<Rightarrow> google_gen_ai" where
  "throwingAi e = \<lparr>generateImages = (\<lambda>_. Inl e), generateContent = (\<lambda>_. Inl e)\<rparr>"

text \<open>A client whose two operations answer with the given responses.\<close>

definition answeringAi :: "generate_images_response \<Rightarrow> generate_content_response \<Rightarrow> google_gen_ai" where
  "answeringAi r1 r2 = \<lparr>generateImages = (\<lambda>_. Inr r1), generateContent = (\<lambda>_. Inr r2)\<rparr>"

definition safetyImage :: generated_image where
  "safetyImage =
     \<lparr>gi_finishReason = Some ''SAFETY'',
      gi_safetyRatings = Some [\<lparr>category = ''HARM_CATEGORY_VIOLENCE'', probability = ''HIGH''\<rparr>],
      image = None\<rparr>"

definition emptyImage :: generated_image where
  "emptyImage = \<lparr>gi_finishReason = None, gi_safetyRatings = None, image = None\<rparr>"

definition safetyCandidate :: candidate where
  "safetyCandidate =
     \<lparr>cand_finishReason = Some ''SAFETY'', cand_safetyRatings = None, content_parts = None\<rparr>"

definition emptyImagesResponse :: generate_images_response where
  "emptyImagesResponse = \<lparr>gir_promptFeedback = None, generatedImages = None\<rparr>"

definition emptyContentResponse :: generate_content_response where
  "emptyContentResponse = \<lparr>promptFeedback = None, candidates = None\<rparr>"

definition textOnlyCandidate :: candidate where
  "textOnlyCandidate =
     \<lparr>cand_finishReason = Some ''STOP'', cand_safetyRatings = None,
      content_parts = Some [\<lparr>part_text = Some ''sorry'', inlineData = None\<rparr>]\<rparr>"

definition sampleState :: component_state where
  "sampleState =
     \<lparr>st_prompt = ''a red fox'', generatedImageUrl = None, isLoading = False, st_error = None,
      st_aspectRatio = AR_16_9, st_imageStyle = ''cartoon'', history = [],
      st_referenceImage = None\<rparr>"

text \<open>A \<^verbatim>\<open>generateImage\<close> that resolves with a fixed data URL.\<close>

definition resolvingGenerate :: "image_generation_config \<Rightarrow> generation_outcome" where
  "resolvingGenerate config =
     \<lparr>upstreamCalls = [], windowEvents = [], settled = Inr ''data:image/jpeg;base64,QUJD''\<rparr>"

text \<open>A \<^verbatim>\<open>JSON.parse\<close> that accepts one text and throws on every other.\<close>

definition sampleStored :: string where
  \<open>sampleStored = ''[{"imageUrl":"data:a","prompt":"p"}]''\<close>

definition sampleParse :: "string \<Rightarrow> js_thrown + history_item list" where
  "sampleParse text =
     (if text = sampleStored
      then Inr [sampleItem ''data:a'' ''p'']
      else Inl (Error ''SyntaxError''))"

section \<open>Properties of the history list\<close>

lemma length_recordHistory: "length (recordHistory e h) \<le> 20"
  by (simp add: recordHistory_def)

lemma recordAll_snoc: "recordAll h (es @ [e]) = recordHistory e (recordAll h es)"
  by (induction es arbitrary: h) simp_all

text \<open>
  Claim C2.  After any sequence of record operations the history list has at most 20
  entries: each record leaves the new entry plus at most 19 survivors of the previous
  list.  So from every starting list, every sequence of one or more records ends with at
  most 20 entries; and a starting list that has at most 20 entries keeps the bound through
  every sequence of records, the empty one included.
\<close>

theorem history_at_most_20:
  "length (recordAll h (e # es)) \<le> 20
   \<and> (length h \<le> 20 \<longrightarrow> length (recordAll h es) \<le> 20)"
proof
  show "length (recordAll h (e # es)) \<le> 20"
  proof (cases es rule: rev_cases)
    case Nil
    then show ?thesis by (simp add: length_recordHistory)
  next
    case (snoc ys y)
    have "recordAll h (e # ys @ [y]) = recordHistory y (recordAll h (e # ys))"
      using recordAll_snoc [of h "e # ys" y] by simp
    with snoc show ?thesis by (simp only: length_recordHistory)
  qed
next
  show "length h \<le> 20 \<longrightarrow> length (recordAll h es) \<le> 20"
  proof (cases es rule: rev_cases)
    case Nil
    then show ?thesis by simp
  next
    case (snoc ys y)
    then show ?thesis by (simp only: recordAll_snoc length_recordHistory simp_thms)
  qed
qed

theorem history_at_most_20_witness:
  "length (replicate 30 (sampleItem ''data:a'' ''p'')) = 30
   \<and> length (recordAll (replicate 30 (sampleItem ''data:a'' ''p''))
        [sampleItem ''data:b'' ''q'', sampleItem ''data:c'' ''r'']) \<le> 20
   \<and> length (recordAll [sampleItem ''data:a'' ''p''] []) \<le> 20"
  using history_at_most_20 [of "replicate 30 (sampleItem ''data:a'' ''p'')"
      "sampleItem ''data:b'' ''q''" "[sampleItem ''data:c'' ''r'']"]
    history_at_most_20 [of "[sampleItem ''data:a'' ''p'']" _ "[]"]
  by simp

lemma filter_take_filter: "filter P (take n (filter P xs)) = take n (filter P xs)"
  by (rule filter_True) (auto dest: in_set_takeD)

lemma filter_neg_take_filter: "filter (\<lambda>x. \<not> P x) (take n (filter P xs)) = []"
  by (auto simp: filter_empty_conv dest: in_set_takeD)

text \<open>
  Claim C3.  Recording an entry leaves exactly one entry with its \<^verbatim>\<open>imageUrl\<close> in
  the list, whatever the list held before (in particular when that \<^verbatim>\<open>imageUrl\<close>
  already occurred in it), and recording the same entry twice in a row gives the same
  list as recording it once.
\<close>

theorem record_duplicate_once:
  "length (filter (\<lambda>item. imageUrl item = imageUrl e) (recordHistory e h)) = 1
   \<and> recordHistory e (recordHistory e h) = recordHistory e h"
proof
  have "filter (\<lambda>item. \<not> imageUrl item \<noteq> imageUrl e)
          (take 19 (filter (\<lambda>item. imageUrl item \<noteq> imageUrl e) h)) = []"
    by (rule filter_neg_take_filter)
  then show "length (filter (\<lambda>item. imageUrl item = imageUrl e) (recordHistory e h)) = 1"
    by (simp add: recordHistory_def)
next
  show "recordHistory e (recordHistory e h) = recordHistory e h"
    by (simp add: recordHistory_def filter_take_filter)
qed

theorem record_duplicate_once_witness:
  "length (filter (\<lambda>item. imageUrl item = ''data:a'')
      (recordHistory (sampleItem ''data:a'' ''new'')
         [sampleItem ''data:b'' ''q'', sampleItem ''data:a'' ''old'', sampleItem ''data:a'' ''older''])) = 1"
  using record_duplicate_once [of "sampleItem ''data:a'' ''new''"
      "[sampleItem ''data:b'' ''q'', sampleItem ''data:a'' ''old'', sampleItem ''data:a'' ''older'']"]
  by (simp add: sampleItem_def)

lemma filter_enumerate_neq:
  "map snd (filter (\<lambda>(index, _). index \<noteq> k) (enumerate n xs)) =
     (if n \<le> k \<and> k < n + length xs then take (k - n) xs @ drop (Suc (k - n)) xs else xs)"
proof (induction xs arbitrary: n)
  case Nil
  then show ?case by simp
next
  case (Cons x xs)
  show ?case
  proof (cases "n = k")
    case True
    then show ?thesis by (simp add: Cons.IH)
  next
    case False
    show ?thesis
    proof (cases "n < k")
      case True
      then have "k - n = Suc (k - Suc n)" by arith
      with True show ?thesis by (auto simp: Cons.IH)
    next
      case False
      with \<open>n \<noteq> k\<close> show ?thesis by (simp add: Cons.IH)
    qed
  qed
qed

lemma delete_in_range:
  assumes "0 \<le> i" "i < int (length h)"
  shows "handleDeleteHistoryItem i h = take (nat i) h @ drop (Suc (nat i)) h"
proof -
  have "(\<lambda>(index :: nat, _ :: history_item). int index \<noteq> i) = (\<lambda>(index, _). index \<noteq> nat i)"
    using assms by (auto simp: fun_eq_iff)
  then show ?thesis
    using assms by (simp add: handleDeleteHistoryItem_def filter_enumerate_neq)
qed

lemma delete_out_of_range:
  assumes "\<not> (0 \<le> i \<and> i < int (length h))"
  shows "handleDeleteHistoryItem i h = h"
proof -
  have "filter (\<lambda>(index, _). int index \<noteq> i) (enumerate 0 h) = enumerate 0 h"
    using assms by (intro filter_True) (auto simp: in_set_enumerate_eq)
  then show ?thesis
    by (simp add: handleDeleteHistoryItem_def)
qed

text \<open>
  Claim C8.  For an index inside the list, deleting removes the entry at that position:
  the result is one shorter, entries before the position keep their place and every later
  entry moves up by one.  For any other index the list is returned unchanged.
\<close>

theorem delete_history_item:
  "(0 \<le> i \<and> i < int (length h) \<longrightarrow>
      handleDeleteHistoryItem i h = take (nat i) h @ drop (Suc (nat i)) h
      \<and> length (handleDeleteHistoryItem i h) = length h - 1
      \<and> (\<forall>j < length h - 1.
            handleDeleteHistoryItem i h ! j = (if j < nat i then h ! j else h ! Suc j)))
   \<and> (\<not> (0 \<le> i \<and> i < int (length h)) \<longrightarrow> handleDeleteHistoryItem i h = h)"
proof (intro conjI impI allI)
  assume r: "0 \<le> i \<and> i < int (length h)"
  then have eq: "handleDeleteHistoryItem i h = take (nat i) h @ drop (Suc (nat i)) h"
    by (simp add: delete_in_range)
  show "handleDeleteHistoryItem i h = take (nat i) h @ drop (Suc (nat i)) h"
    by (rule eq)
  from r have lt: "nat i < length h" by linarith
  then show "length (handleDeleteHistoryItem i h) = length h - 1"
    by (simp add: eq)
  fix j
  assume "j < length h - 1"
  with lt show "handleDeleteHistoryItem i h ! j = (if j < nat i then h ! j else h ! Suc j)"
    by (auto simp: eq nth_append min_def)
next
  assume "\<not> (0 \<le> i \<and> i < int (length h))"
  then show "handleDeleteHistoryItem i h = h"
    by (rule delete_out_of_range)
qed

theorem delete_history_item_witness:
  "handleDeleteHistoryItem 1 [sampleItem ''data:a'' ''p'', sampleItem ''data:b'' ''q'', sampleItem ''data:c'' ''r'']
     = [sampleItem ''data:a'' ''p'', sampleItem ''data:c'' ''r'']
   \<and> handleDeleteHistoryItem 3 [sampleItem ''data:a'' ''p'', sampleItem ''data:b'' ''q'', sampleItem ''data:c'' ''r'']
     = [sampleItem ''data:a'' ''p'', sampleItem ''data:b'' ''q'', sampleItem ''data:c'' ''r'']
   \<and> handleDeleteHistoryItem (- 1) [sampleItem ''data:a'' ''p'']
     = [sampleItem ''data:a'' ''p'']"
  using delete_history_item [of 1 "[sampleItem ''data:a'' ''p'', sampleItem ''data:b'' ''q'', sampleItem ''data:c'' ''r'']"]
    delete_history_item [of 3 "[sampleItem ''data:a'' ''p'', sampleItem ''data:b'' ''q'', sampleItem ''data:c'' ''r'']"]
    delete_history_item [of "- 1" "[sampleItem ''data:a'' ''p'']"]
  by simp

section \<open>Properties of the service\<close>

lemma promptBlocked_None: "promptBlocked feedback = None \<longleftrightarrow> \<not> hasBlockReason feedback"
  by (auto simp: promptBlocked_def hasBlockReason_def split: option.splits)

lemma withDetails_append: "\<exists>rest. withDetails message details = message @ rest"
  by (auto simp: withDetails_def split: option.splits)

lemma contentBlocked_startsWith:
  "js_startsWith (withDetails ''The generated content was blocked for safety reasons.'' details)
     ''The generated content was blocked for safety reasons''"
proof -
  obtain rest where "withDetails ''The generated content was blocked for safety reasons.'' details
      = ''The generated content was blocked for safety reasons.'' @ rest"
    using withDetails_append by blast
  then show ?thesis by (simp add: js_startsWith_def)
qed

lemma contentBlocked_not_promptBlocked:
  "\<not> js_startsWith (withDetails ''The generated content was blocked for safety reasons.'' details)
     ''Your prompt was blocked''"
proof -
  obtain rest where "withDetails ''The generated content was blocked for safety reasons.'' details
      = ''The generated content was blocked for safety reasons.'' @ rest"
    using withDetails_append by blast
  then show ?thesis by (simp add: js_startsWith_def)
qed

lemma contentBlocked_textToImageClassified:
  "textToImageClassified (withDetails ''The generated content was blocked for safety reasons.'' details)"
proof -
  obtain rest where "withDetails ''The generated content was blocked for safety reasons.'' details
      = ''The generated content was blocked for safety reasons.'' @ rest"
    using withDetails_append by blast
  then show ?thesis by (simp add: textToImageClassified_def js_startsWith_def)
qed

lemma contentBlocked_withReferenceClassified:
  "withReferenceClassified (withDetails ''The generated content was blocked for safety reasons.'' details)"
proof -
  obtain rest where "withDetails ''The generated content was blocked for safety reasons.'' details
      = ''The generated content was blocked for safety reasons.'' @ rest"
    using withDetails_append by blast
  then show ?thesis by (simp add: withReferenceClassified_def js_startsWith_def)
qed

lemma textToImage_safety:
  assumes "generateImages ai (textToImageRequest config) = Inr response"
    and "\<not> hasBlockReason (gir_promptFeedback response)"
    and "firstElement (generatedImages response) = Some generatedImage"
    and "gi_finishReason generatedImage = Some ''SAFETY''"
  shows "generateTextToImage ai config =
           \<lparr>upstreamCalls = [GenerateImages (textToImageRequest config)],
            windowEvents = [],
            settled = Inl (Error (withDetails ''The generated content was blocked for safety reasons.''
                                   (safetyRatingsText (gi_safetyRatings generatedImage))))\<rparr>"
proof -
  have "textToImageResult config response =
          Inl (Error (withDetails ''The generated content was blocked for safety reasons.''
                                   (safetyRatingsText (gi_safetyRatings generatedImage))))"
    using assms(2-4) by (simp add: textToImageResult_def promptBlocked_None [symmetric])
  then show ?thesis
    using assms(1)
    by (simp add: generateTextToImage_def catchTextToImage_def contentBlocked_textToImageClassified)
qed

lemma withReference_safety:
  assumes "generateContent ai (referenceImageRequest config) = Inr response"
    and "\<not> hasBlockReason (promptFeedback response)"
    and "firstElement (candidates response) = Some cand"
    and "cand_finishReason cand = Some ''SAFETY''"
  shows "generateWithReferenceImage ai config =
           \<lparr>upstreamCalls = [GenerateContent (referenceImageRequest config)],
            windowEvents = [],
            settled = Inl (Error (withDetails ''The generated content was blocked for safety reasons.''
                                   (safetyRatingsText (cand_safetyRatings cand))))\<rparr>"
proof -
  have "referenceImageResult response =
          Inl (Error (withDetails ''The generated content was blocked for safety reasons.''
                                   (safetyRatingsText (cand_safetyRatings cand))))"
    using assms(2-4) by (simp add: referenceImageResult_def promptBlocked_None [symmetric])
  then show ?thesis
    using assms(1)
    by (simp add: generateWithReferenceImage_def catchWithReferenceImage_def
        contentBlocked_withReferenceClassified)
qed

text \<open>
  Claim C4.  When the upstream response carries no block reason and its first generated
  image (text-only path) or first candidate (reference-conditioned path) has finish reason
  \<^verbatim>\<open>SAFETY\<close>, the call fails with an error whose message starts with "The generated
  content was blocked for safety reasons", and not with the message of a blocked prompt.
\<close>

theorem safety_finish_reason_is_content_blocked:
  "(generateImages ai (textToImageRequest config) = Inr r1
      \<and> \<not> hasBlockReason (gir_promptFeedback r1)
      \<and> firstElement (generatedImages r1) = Some generatedImage
      \<and> gi_finishReason generatedImage = Some ''SAFETY''
    \<longrightarrow> (\<exists>message. settled (generateTextToImage ai config) = Inl (Error message)
           \<and> js_startsWith message ''The generated content was blocked for safety reasons''
           \<and> \<not> js_startsWith message ''Your prompt was blocked''))
   \<and> (generateContent ai (referenceImageRequest config) = Inr r2
      \<and> \<not> hasBlockReason (promptFeedback r2)
      \<and> firstElement (candidates r2) = Some cand
      \<and> cand_finishReason cand = Some ''SAFETY''
    \<longrightarrow> (\<exists>message. settled (generateWithReferenceImage ai config) = Inl (Error message)
           \<and> js_startsWith message ''The generated content was blocked for safety reasons''
           \<and> \<not> js_startsWith message ''Your prompt was blocked''))"
  by (auto simp: textToImage_safety withReference_safety contentBlocked_startsWith
      contentBlocked_not_promptBlocked)

theorem safety_finish_reason_is_content_blocked_witness:
  "\<not> hasBlockReason (gir_promptFeedback (emptyImagesResponse\<lparr>generatedImages := Some [safetyImage]\<rparr>))
   \<and> gi_finishReason safetyImage = Some ''SAFETY''
   \<and> settled (generateTextToImage
       (answeringAi (emptyImagesResponse\<lparr>generatedImages := Some [safetyImage]\<rparr>)
                    (emptyContentResponse\<lparr>candidates := Some [safetyCandidate]\<rparr>))
       sampleConfig)
     = Inl (Error ''The generated content was blocked for safety reasons. Details: VIOLENCE: HIGH. Please modify your prompt and try again.'')
   \<and> \<not> hasBlockReason (promptFeedback (emptyContentResponse\<lparr>candidates := Some [safetyCandidate]\<rparr>))
   \<and> cand_finishReason safetyCandidate = Some ''SAFETY''
   \<and> settled (generateWithReferenceImage
       (answeringAi (emptyImagesResponse\<lparr>generatedImages := Some [safetyImage]\<rparr>)
                    (emptyContentResponse\<lparr>candidates := Some [safetyCandidate]\<rparr>))
       sampleConfigWithReference)
     = Inl (Error ''The generated content was blocked for safety reasons.'')"
  using safety_finish_reason_is_content_blocked
    [of "answeringAi (emptyImagesResponse\<lparr>generatedImages := Some [safetyImage]\<rparr>)
                    (emptyContentResponse\<lparr>candidates := Some [safetyCandidate]\<rparr>)"
        sampleConfig "emptyImagesResponse\<lparr>generatedImages := Some [safetyImage]\<rparr>" safetyImage
        "emptyContentResponse\<lparr>candidates := Some [safetyCandidate]\<rparr>" safetyCandidate]
  by (simp add: generateTextToImage_def generateWithReferenceImage_def answeringAi_def
      emptyImagesResponse_def emptyContentResponse_def safetyImage_def safetyCandidate_def
      textToImageResult_def referenceImageResult_def promptBlocked_def withDetails_def
      safetyRatingsText_def catchTextToImage_def catchWithReferenceImage_def
      textToImageClassified_def withReferenceClassified_def js_startsWith_def hasBlockReason_def)

lemma zip_letters:
  "zip upperLetters lowerLetters =
     [
      (CHR ''A'', CHR ''a''), (CHR ''B'', CHR ''b''), (CHR ''C'', CHR ''c''), (CHR ''D'', CHR ''d''),
      (CHR ''E'', CHR ''e''), (CHR ''F'', CHR ''f''), (CHR ''G'', CHR ''g''), (CHR ''H'', CHR ''h''),
      (CHR ''I'', CHR ''i''), (CHR ''J'', CHR ''j''), (CHR ''K'', CHR ''k''), (CHR ''L'', CHR ''l''),
      (CHR ''M'', CHR ''m''), (CHR ''N'', CHR ''n''), (CHR ''O'', CHR ''o''), (CHR ''P'', CHR ''p''),
      (CHR ''Q'', CHR ''q''), (CHR ''R'', CHR ''r''), (CHR ''S'', CHR ''s''), (CHR ''T'', CHR ''t''),
      (CHR ''U'', CHR ''u''), (CHR ''V'', CHR ''v''), (CHR ''W'', CHR ''w''), (CHR ''X'', CHR ''x''),
      (CHR ''Y'', CHR ''y''), (CHR ''Z'', CHR ''z''), (CHR 0xC0, CHR 0xE0), (CHR 0xC1, CHR 0xE1),
      (CHR 0xC2, CHR 0xE2), (CHR 0xC3, CHR 0xE3), (CHR 0xC4, CHR 0xE4), (CHR 0xC5, CHR 0xE5),
      (CHR 0xC6, CHR 0xE6), (CHR 0xC7, CHR 0xE7), (CHR 0xC8, CHR 0xE8), (CHR 0xC9, CHR 0xE9),
      (CHR 0xCA, CHR 0xEA), (CHR 0xCB, CHR 0xEB), (CHR 0xCC, CHR 0xEC), (CHR 0xCD, CHR 0xED),
      (CHR 0xCE, CHR 0xEE), (CHR 0xCF, CHR 0xEF), (CHR 0xD0, CHR 0xF0), (CHR 0xD1, CHR 0xF1),
      (CHR 0xD2, CHR 0xF2), (CHR 0xD3, CHR 0xF3), (CHR 0xD4, CHR 0xF4), (CHR 0xD5, CHR 0xF5),
      (CHR 0xD6, CHR 0xF6), (CHR 0xD8, CHR 0xF8), (CHR 0xD9, CHR 0xF9), (CHR 0xDA, CHR 0xFA),
      (CHR 0xDB, CHR 0xFB), (CHR 0xDC, CHR 0xFC), (CHR 0xDD, CHR 0xFD), (CHR 0xDE, CHR 0xFE)]"
  by (simp add: upperLetters_def lowerLetters_def)

lemma js_includes_sublist: "js_includes s p \<longleftrightarrow> sublist p s"
  by (induction s) (simp_all add: sublist_Cons_right)

lemma js_includes_toLowerCase:
  "js_includes s p \<Longrightarrow> js_includes (js_toLowerCase s) (js_toLowerCase p)"
  by (simp add: js_includes_sublist js_toLowerCase_def map_mono_sublist)

lemma toLowerCase_429: "js_toLowerCase ''429'' = ''429''"
  by (simp add: js_toLowerCase_def lowerChar_def zip_letters)

lemma toLowerCase_latin1:
  "js_toLowerCase [CHR 0xC0, CHR 0xD7, CHR 0xDE, CHR 0xDF, CHR ''Q'', CHR ''@'']
     = [CHR 0xE0, CHR 0xD7, CHR 0xFE, CHR 0xDF, CHR ''q'', CHR ''@'']"
  by (simp add: js_toLowerCase_def lowerChar_def zip_letters)

lemma userFriendlyMessage_429:
  assumes "js_includes message ''429''"
    and "\<not> indicatesInvalidKey (js_toLowerCase message)"
  shows "userFriendlyMessage (Error message) =
           ([], ''You have exceeded your API usage quota. Please check your account status and billing.'')"
proof -
  have "js_includes (js_toLowerCase message) ''429''"
    using js_includes_toLowerCase [OF assms(1)] by (simp only: toLowerCase_429)
  with assms(2) show ?thesis
    by (simp add: userFriendlyMessage_def)
qed

lemma userFriendlyMessage_invalidKey:
  assumes "indicatesInvalidKey (js_toLowerCase message)"
  shows "userFriendlyMessage (Error message) =
           ([''apiKeyError''],
            ''API Key is invalid or not authorized. Please ensure your key is correct and has the required permissions.'')"
  using assms by (simp add: userFriendlyMessage_def)

lemma lower_quota_message:
  "js_toLowerCase ''got status: 429 Too Many Requests'' = ''got status: 429 too many requests''"
  by (simp add: js_toLowerCase_def lowerChar_def zip_letters)

lemma lower_denied_message:
  "js_toLowerCase ''429 PERMISSION_DENIED'' = ''429 permission_denied''"
  by (simp add: js_toLowerCase_def lowerChar_def zip_letters)

lemma lower_project_message:
  "js_toLowerCase ''429 Too Many Requests (project 14031)'' = ''429 too many requests (project 14031)''"
  by (simp add: js_toLowerCase_def lowerChar_def zip_letters)

text \<open>
  Claim C5, as the code has it.  Take an \<^verbatim>\<open>Error\<close> thrown by the upstream call
  whose message is not one of the messages the path rethrows unchanged.  If the message
  contains "429" and its lower-cased form contains none of the credential markers ("api
  key not valid", "403", "permission_denied", "requested entity was not found"), the call
  fails with the quota message, on both paths, and no event is dispatched.  If the
  lower-cased message contains a credential marker, the call fails with the
  invalid-credentials message and dispatches \<^verbatim>\<open>apiKeyError\<close>, on both paths, whether
  or not "429" is present: the credential markers are tested first in the chain of
  alternatives.
\<close>

theorem includes_429_quota_exceeded:
  "(js_includes message ''429'' \<and> \<not> indicatesInvalidKey (js_toLowerCase message) \<longrightarrow>
      (generateImages ai (textToImageRequest config) = Inl (Error message)
            \<and> \<not> textToImageClassified message
          \<longrightarrow> settled (generateTextToImage ai config)
                = Inl (Error ''You have exceeded your API usage quota. Please check your account status and billing.'')
              \<and> windowEvents (generateTextToImage ai config) = [])
       \<and> (generateContent ai (referenceImageRequest config) = Inl (Error message)
            \<and> \<not> withReferenceClassified message
          \<longrightarrow> settled (generateWithReferenceImage ai config)
                = Inl (Error ''You have exceeded your API usage quota. Please check your account status and billing.'')
              \<and> windowEvents (generateWithReferenceImage ai config) = []))
   \<and> (indicatesInvalidKey (js_toLowerCase message) \<longrightarrow>
      (generateImages ai (textToImageRequest config) = Inl (Error message)
            \<and> \<not> textToImageClassified message
          \<longrightarrow> settled (generateTextToImage ai config)
                = Inl (Error ''API Key is invalid or not authorized. Please ensure your key is correct and has the required permissions.'')
              \<and> windowEvents (generateTextToImage ai config) = [''apiKeyError''])
       \<and> (generateContent ai (referenceImageRequest config) = Inl (Error message)
            \<and> \<not> withReferenceClassified message
          \<longrightarrow> settled (generateWithReferenceImage ai config)
                = Inl (Error ''API Key is invalid or not authorized. Please ensure your key is correct and has the required permissions.'')
              \<and> windowEvents (generateWithReferenceImage ai config) = [''apiKeyError'']))"
proof (intro conjI impI)
  assume h: "js_includes message ''429'' \<and> \<not> indicatesInvalidKey (js_toLowerCase message)"
  then have q: "userFriendlyMessage (Error message) =
      ([], ''You have exceeded your API usage quota. Please check your account status and billing.'')"
    by (simp add: userFriendlyMessage_429)
  {
    assume "generateImages ai (textToImageRequest config) = Inl (Error message)
            \<and> \<not> textToImageClassified message"
    with q show "settled (generateTextToImage ai config)
                = Inl (Error ''You have exceeded your API usage quota. Please check your account status and billing.'')"
      and "windowEvents (generateTextToImage ai config) = []"
      by (simp_all add: generateTextToImage_def catchTextToImage_def)
  }
  {
    assume "generateContent ai (referenceImageRequest config) = Inl (Error message)
            \<and> \<not> withReferenceClassified message"
    with q show "settled (generateWithReferenceImage ai config)
                = Inl (Error ''You have exceeded your API usage quota. Please check your account status and billing.'')"
      and "windowEvents (generateWithReferenceImage ai config) = []"
      by (simp_all add: generateWithReferenceImage_def catchWithReferenceImage_def)
  }
next
  assume "indicatesInvalidKey (js_toLowerCase message)"
  then have k: "userFriendlyMessage (Error message) =
      ([''apiKeyError''],
       ''API Key is invalid or not authorized. Please ensure your key is correct and has the required permissions.'')"
    by (rule userFriendlyMessage_invalidKey)
  {
    assume "generateImages ai (textToImageRequest config) = Inl (Error message)
            \<and> \<not> textToImageClassified message"
    with k show "settled (generateTextToImage ai config)
                = Inl (Error ''API Key is invalid or not authorized. Please ensure your key is correct and has the required permissions.'')"
      and "windowEvents (generateTextToImage ai config) = [''apiKeyError'']"
      by (simp_all add: generateTextToImage_def catchTextToImage_def)
  }
  {
    assume "generateContent ai (referenceImageRequest config) = Inl (Error message)
            \<and> \<not> withReferenceClassified message"
    with k show "settled (generateWithReferenceImage ai config)
                = Inl (Error ''API Key is invalid or not authorized. Please ensure your key is correct and has the required permissions.'')"
      and "windowEvents (generateWithReferenceImage ai config) = [''apiKeyError'']"
      by (simp_all add: generateWithReferenceImage_def catchWithReferenceImage_def)
  }
qed

theorem includes_429_quota_exceeded_witness:
  "js_includes ''got status: 429 Too Many Requests'' ''429''
   \<and> \<not> indicatesInvalidKey (js_toLowerCase ''got status: 429 Too Many Requests'')
   \<and> \<not> textToImageClassified ''got status: 429 Too Many Requests''
   \<and> \<not> withReferenceClassified ''got status: 429 Too Many Requests''
   \<and> settled (generateTextToImage (throwingAi (Error ''got status: 429 Too Many Requests'')) sampleConfig)
       = Inl (Error ''You have exceeded your API usage quota. Please check your account status and billing.'')
   \<and> settled (generateWithReferenceImage (throwingAi (Error ''got status: 429 Too Many Requests''))
         sampleConfigWithReference)
       = Inl (Error ''You have exceeded your API usage quota. Please check your account status and billing.'')
   \<and> indicatesInvalidKey (js_toLowerCase ''429 PERMISSION_DENIED'')
   \<and> \<not> textToImageClassified ''429 PERMISSION_DENIED''
   \<and> \<not> withReferenceClassified ''429 PERMISSION_DENIED''
   \<and> settled (generateTextToImage (throwingAi (Error ''429 PERMISSION_DENIED'')) sampleConfig)
       = Inl (Error ''API Key is invalid or not authorized. Please ensure your key is correct and has the required permissions.'')
   \<and> windowEvents (generateTextToImage (throwingAi (Error ''429 PERMISSION_DENIED'')) sampleConfig)
       = [''apiKeyError'']
   \<and> settled (generateWithReferenceImage (throwingAi (Error ''429 PERMISSION_DENIED''))
         sampleConfigWithReference)
       = Inl (Error ''API Key is invalid or not authorized. Please ensure your key is correct and has the required permissions.'')
   \<and> windowEvents (generateWithReferenceImage (throwingAi (Error ''429 PERMISSION_DENIED''))
         sampleConfigWithReference)
       = [''apiKeyError'']"
proof -
  have a: "js_includes ''got status: 429 Too Many Requests'' ''429''"
    by simp
  have b: "\<not> indicatesInvalidKey (js_toLowerCase ''got status: 429 Too Many Requests'')"
    by (simp add: indicatesInvalidKey_def lower_quota_message)
  have c: "\<not> textToImageClassified ''got status: 429 Too Many Requests''"
    by (simp add: textToImageClassified_def js_startsWith_def)
  have d: "\<not> withReferenceClassified ''got status: 429 Too Many Requests''"
    by (simp add: withReferenceClassified_def js_startsWith_def)
  have e: "indicatesInvalidKey (js_toLowerCase ''429 PERMISSION_DENIED'')"
    by (simp add: indicatesInvalidKey_def lower_denied_message)
  have f: "\<not> textToImageClassified ''429 PERMISSION_DENIED''"
    by (simp add: textToImageClassified_def js_startsWith_def)
  have g: "\<not> withReferenceClassified ''429 PERMISSION_DENIED''"
    by (simp add: withReferenceClassified_def js_startsWith_def)
  show ?thesis
    using a b c d e f g
      includes_429_quota_exceeded [where message = "''got status: 429 Too Many Requests''"
        and ai = "throwingAi (Error ''got status: 429 Too Many Requests'')" and config = sampleConfig]
      includes_429_quota_exceeded [where message = "''got status: 429 Too Many Requests''"
        and ai = "throwingAi (Error ''got status: 429 Too Many Requests'')"
        and config = sampleConfigWithReference]
      includes_429_quota_exceeded [where message = "''429 PERMISSION_DENIED''"
        and ai = "throwingAi (Error ''429 PERMISSION_DENIED'')" and config = sampleConfig]
      includes_429_quota_exceeded [where message = "''429 PERMISSION_DENIED''"
        and ai = "throwingAi (Error ''429 PERMISSION_DENIED'')"
        and config = sampleConfigWithReference]
    by (simp add: throwingAi_def)
qed

text \<open>
  Claim C5 as stated fails: the message below contains "429" and is not rethrown
  unchanged, but it also contains "403" (inside the project number), so both paths
  report invalid credentials and dispatch \<^verbatim>\<open>apiKeyError\<close>.
\<close>

theorem includes_429_counterexample:
  "js_includes ''429 Too Many Requests (project 14031)'' ''429''
   \<and> \<not> textToImageClassified ''429 Too Many Requests (project 14031)''
   \<and> \<not> withReferenceClassified ''429 Too Many Requests (project 14031)''
   \<and> generateTextToImage (throwingAi (Error ''429 Too Many Requests (project 14031)'')) sampleConfig
       = \<lparr>upstreamCalls = [GenerateImages (textToImageRequest sampleConfig)],
          windowEvents = [''apiKeyError''],
          settled = Inl (Error ''API Key is invalid or not authorized. Please ensure your key is correct and has the required permissions.'')\<rparr>
   \<and> settled (generateTextToImage (throwingAi (Error ''429 Too Many Requests (project 14031)'')) sampleConfig)
       \<noteq> Inl (Error ''You have exceeded your API usage quota. Please check your account status and billing.'')
   \<and> generateWithReferenceImage (throwingAi (Error ''429 Too Many Requests (project 14031)''))
         sampleConfigWithReference
       = \<lparr>upstreamCalls = [GenerateContent (referenceImageRequest sampleConfigWithReference)],
          windowEvents = [''apiKeyError''],
          settled = Inl (Error ''API Key is invalid or not authorized. Please ensure your key is correct and has the required permissions.'')\<rparr>
   \<and> settled (generateWithReferenceImage (throwingAi (Error ''429 Too Many Requests (project 14031)''))
         sampleConfigWithReference)
       \<noteq> Inl (Error ''You have exceeded your API usage quota. Please check your account status and billing.'')"
  by (simp add: generateTextToImage_def generateWithReferenceImage_def throwingAi_def
      catchTextToImage_def catchWithReferenceImage_def textToImageClassified_def
      withReferenceClassified_def userFriendlyMessage_def indicatesInvalidKey_def
      js_startsWith_def lower_project_message)

lemma firstInlineImage_None:
  "firstInlineImage ps = None \<longleftrightarrow> (\<forall>part \<in> set ps. inlineData part = None)"
  by (induction ps) (auto split: option.splits)

lemma noImage_textToImageClassified:
  "textToImageClassified ''No image data was returned from the API. The prompt may be too complex or the model refused the request.''"
  by (simp add: textToImageClassified_def js_startsWith_def)

lemma noImage_withReferenceClassified:
  "withReferenceClassified ''No image data was returned from the API. This can happen if the prompt is too complex or the model is unable to generate an image for your request.''"
  by (simp add: withReferenceClassified_def js_startsWith_def)

lemma stopped_withReferenceClassified:
  "withReferenceClassified ''Image generation was stopped. Reason: UNKNOWN_REASON.''"
  by (simp add: withReferenceClassified_def js_startsWith_def)

lemma textToImage_no_image:
  assumes "generateImages ai (textToImageRequest config) = Inr response"
    and "\<not> hasBlockReason (gir_promptFeedback response)"
    and "firstElement (generatedImages response) = None"
  shows "settled (generateTextToImage ai config) =
           Inl (Error ''No image data was returned from the API. The prompt may be too complex or the model refused the request.'')"
proof -
  have "textToImageResult config response =
          Inl (Error ''No image data was returned from the API. The prompt may be too complex or the model refused the request.'')"
    using assms(2,3) by (simp add: textToImageResult_def promptBlocked_None [symmetric])
  then show ?thesis
    using assms(1)
    by (simp add: generateTextToImage_def catchTextToImage_def noImage_textToImageClassified)
qed

lemma withReference_no_inline_image:
  assumes "generateContent ai (referenceImageRequest config) = Inr response"
    and "\<not> hasBlockReason (promptFeedback response)"
    and "firstElement (candidates response) = Some cand"
    and "\<not> truthy (cand_finishReason cand) \<or> cand_finishReason cand = Some ''STOP''"
    and "\<forall>part \<in> set (candidateParts cand). inlineData part = None"
  shows "settled (generateWithReferenceImage ai config) =
           Inl (Error ''No image data was returned from the API. This can happen if the prompt is too complex or the model is unable to generate an image for your request.'')"
proof -
  have "firstInlineImage (candidateParts cand) = None"
    using assms(5) by (simp add: firstInlineImage_None)
  then have "referenceImageResult response =
          Inl (Error ''No image data was returned from the API. This can happen if the prompt is too complex or the model is unable to generate an image for your request.'')"
    using assms(2-4) by (auto simp: referenceImageResult_def promptBlocked_None [symmetric])
  then show ?thesis
    using assms(1)
    by (simp add: generateWithReferenceImage_def catchWithReferenceImage_def
        noImage_withReferenceClassified)
qed

lemma withReference_no_candidate:
  assumes "generateContent ai (referenceImageRequest config) = Inr response"
    and "\<not> hasBlockReason (promptFeedback response)"
    and "firstElement (candidates response) = None"
  shows "settled (generateWithReferenceImage ai config) =
           Inl (Error ''Image generation was stopped. Reason: UNKNOWN_REASON.'')"
proof -
  have "referenceImageResult response =
          Inl (Error ''Image generation was stopped. Reason: UNKNOWN_REASON.'')"
    using assms(2,3) by (simp add: referenceImageResult_def promptBlocked_None [symmetric])
  then show ?thesis
    using assms(1)
    by (simp add: generateWithReferenceImage_def catchWithReferenceImage_def
        stopped_withReferenceClassified)
qed

lemma noData_textToImageClassified:
  "textToImageClassified ''The API response did not contain image data, despite reporting success.''"
  by (simp add: textToImageClassified_def js_startsWith_def)

lemma textToImage_no_bytes:
  assumes "generateImages ai (textToImageRequest config) = Inr response"
    and "\<not> hasBlockReason (gir_promptFeedback response)"
    and "firstElement (generatedImages response) = Some generatedImage"
    and "\<not> truthy (gi_finishReason generatedImage) \<or> gi_finishReason generatedImage = Some ''SUCCESS''"
    and "\<not> truthy (Option.bind (image generatedImage) imageBytes)"
  shows "settled (generateTextToImage ai config) =
           Inl (Error ''The API response did not contain image data, despite reporting success.'')"
proof -
  have "textToImageResult config response =
          Inl (Error ''The API response did not contain image data, despite reporting success.'')"
    using assms(2-5)
    by (auto simp: textToImageResult_def promptBlocked_None [symmetric] split: option.splits)
  then show ?thesis
    using assms(1)
    by (simp add: generateTextToImage_def catchTextToImage_def noData_textToImageClassified)
qed

text \<open>
  Claim C6, as the code has it.  For a response that carries no block reason:
  on the text-only path, when there is no first generated image, the call fails with
  "No image data was returned ..."; on the reference-conditioned path, when the first
  candidate exists, its finish reason is absent, empty or \<^verbatim>\<open>STOP\<close>, and none of its
  parts carries inline data, the call fails with "No image data was returned ...".
  When the reference-conditioned response has no candidate at all, the call fails with
  "Image generation was stopped. Reason: UNKNOWN_REASON."; and when the first generated
  image of the text-only path has no finish reason other than \<^verbatim>\<open>SUCCESS\<close> and no
  image bytes, the call fails with "The API response did not contain image data, despite
  reporting success.".
\<close>

theorem no_image_returned:
  "(generateImages ai (textToImageRequest config) = Inr r1
      \<and> \<not> hasBlockReason (gir_promptFeedback r1)
      \<and> firstElement (generatedImages r1) = None
    \<longrightarrow> settled (generateTextToImage ai config) =
          Inl (Error ''No image data was returned from the API. The prompt may be too complex or the model refused the request.''))
   \<and> (generateContent ai (referenceImageRequest config) = Inr r2
      \<and> \<not> hasBlockReason (promptFeedback r2)
      \<and> firstElement (candidates r2) = Some cand
      \<and> (\<not> truthy (cand_finishReason cand) \<or> cand_finishReason cand = Some ''STOP'')
      \<and> (\<forall>part \<in> set (candidateParts cand). inlineData part = None)
    \<longrightarrow> settled (generateWithReferenceImage ai config) =
          Inl (Error ''No image data was returned from the API. This can happen if the prompt is too complex or the model is unable to generate an image for your request.''))
   \<and> (generateContent ai (referenceImageRequest config) = Inr r2
      \<and> \<not> hasBlockReason (promptFeedback r2)
      \<and> firstElement (candidates r2) = None
    \<longrightarrow> settled (generateWithReferenceImage ai config) =
          Inl (Error ''Image generation was stopped. Reason: UNKNOWN_REASON.''))
   \<and> (generateImages ai (textToImageRequest config) = Inr r1
      \<and> \<not> hasBlockReason (gir_promptFeedback r1)
      \<and> firstElement (generatedImages r1) = Some generatedImage
      \<and> (\<not> truthy (gi_finishReason generatedImage) \<or> gi_finishReason generatedImage = Some ''SUCCESS'')
      \<and> \<not> truthy (Option.bind (image generatedImage) imageBytes)
    \<longrightarrow> settled (generateTextToImage ai config) =
          Inl (Error ''The API response did not contain image data, despite reporting success.''))"
proof (intro conjI impI)
  assume "generateImages ai (textToImageRequest config) = Inr r1
      \<and> \<not> hasBlockReason (gir_promptFeedback r1)
      \<and> firstElement (generatedImages r1) = None"
  then show "settled (generateTextToImage ai config) =
          Inl (Error ''No image data was returned from the API. The prompt may be too complex or the model refused the request.'')"
    by (simp add: textToImage_no_image)
next
  assume "generateContent ai (referenceImageRequest config) = Inr r2
      \<and> \<not> hasBlockReason (promptFeedback r2)
      \<and> firstElement (candidates r2) = Some cand
      \<and> (\<not> truthy (cand_finishReason cand) \<or> cand_finishReason cand = Some ''STOP'')
      \<and> (\<forall>part \<in> set (candidateParts cand). inlineData part = None)"
  then show "settled (generateWithReferenceImage ai config) =
          Inl (Error ''No image data was returned from the API. This can happen if the prompt is too complex or the model is unable to generate an image for your request.'')"
    using withReference_no_inline_image [of ai config r2 cand] by blast
next
  assume "generateContent ai (referenceImageRequest config) = Inr r2
      \<and> \<not> hasBlockReason (promptFeedback r2)
      \<and> firstElement (candidates r2) = None"
  then show "settled (generateWithReferenceImage ai config) =
          Inl (Error ''Image generation was stopped. Reason: UNKNOWN_REASON.'')"
    by (simp add: withReference_no_candidate)
next
  assume "generateImages ai (textToImageRequest config) = Inr r1
      \<and> \<not> hasBlockReason (gir_promptFeedback r1)
      \<and> firstElement (generatedImages r1) = Some generatedImage
      \<and> (\<not> truthy (gi_finishReason generatedImage) \<or> gi_finishReason generatedImage = Some ''SUCCESS'')
      \<and> \<not> truthy (Option.bind (image generatedImage) imageBytes)"
  then show "settled (generateTextToImage ai config) =
          Inl (Error ''The API response did not contain image data, despite reporting success.'')"
    using textToImage_no_bytes [of ai config r1 generatedImage] by blast
qed

theorem no_image_returned_witness:
  "settled (generateTextToImage (answeringAi emptyImagesResponse emptyContentResponse) sampleConfig)
     = Inl (Error ''No image data was returned from the API. The prompt may be too complex or the model refused the request.'')
   \<and> settled (generateWithReferenceImage
        (answeringAi emptyImagesResponse (emptyContentResponse\<lparr>candidates := Some [textOnlyCandidate]\<rparr>))
        sampleConfigWithReference)
     = Inl (Error ''No image data was returned from the API. This can happen if the prompt is too complex or the model is unable to generate an image for your request.'')
   \<and> settled (generateWithReferenceImage (answeringAi emptyImagesResponse emptyContentResponse)
        sampleConfigWithReference)
     = Inl (Error ''Image generation was stopped. Reason: UNKNOWN_REASON.'')
   \<and> settled (generateTextToImage
        (answeringAi (emptyImagesResponse\<lparr>generatedImages := Some [emptyImage]\<rparr>) emptyContentResponse)
        sampleConfig)
     = Inl (Error ''The API response did not contain image data, despite reporting success.'')"
  using no_image_returned [of "answeringAi emptyImagesResponse emptyContentResponse" sampleConfig
      emptyImagesResponse emptyContentResponse]
    no_image_returned [of
      "answeringAi (emptyImagesResponse\<lparr>generatedImages := Some [emptyImage]\<rparr>) emptyContentResponse"
      sampleConfig "emptyImagesResponse\<lparr>generatedImages := Some [emptyImage]\<rparr>"
      emptyContentResponse _ emptyImage]
    no_image_returned [of
      "answeringAi emptyImagesResponse (emptyContentResponse\<lparr>candidates := Some [textOnlyCandidate]\<rparr>)"
      sampleConfigWithReference emptyImagesResponse
      "emptyContentResponse\<lparr>candidates := Some [textOnlyCandidate]\<rparr>" textOnlyCandidate]
    no_image_returned [of "answeringAi emptyImagesResponse emptyContentResponse"
      sampleConfigWithReference emptyImagesResponse emptyContentResponse]
  by (simp add: answeringAi_def emptyImagesResponse_def emptyContentResponse_def
      textOnlyCandidate_def emptyImage_def hasBlockReason_def candidateParts_def)

text \<open>
  Claim C6 as stated fails where it names the case explicitly: a response of the
  reference-conditioned path with no block reason and no candidate at all is reported as
  a stopped generation with reason \<^verbatim>\<open>UNKNOWN_REASON\<close>, and that message does not
  start with "No image data was returned".
\<close>

theorem no_candidate_counterexample:
  "\<not> hasBlockReason (promptFeedback emptyContentResponse)
   \<and> firstElement (candidates emptyContentResponse) = None
   \<and> generateWithReferenceImage (answeringAi emptyImagesResponse emptyContentResponse)
        sampleConfigWithReference
       = \<lparr>upstreamCalls = [GenerateContent (referenceImageRequest sampleConfigWithReference)],
          windowEvents = [],
          settled = Inl (Error ''Image generation was stopped. Reason: UNKNOWN_REASON.'')\<rparr>
   \<and> \<not> js_startsWith ''Image generation was stopped. Reason: UNKNOWN_REASON.''
         ''No image data was returned''"
  by (simp add: generateWithReferenceImage_def answeringAi_def emptyContentResponse_def
      referenceImageResult_def promptBlocked_def catchWithReferenceImage_def
      withReferenceClassified_def js_startsWith_def hasBlockReason_def)

text \<open>
  Claim C1.  For every configuration, \<^verbatim>\<open>generateImage\<close> takes the
  reference-conditioned path exactly when \<^verbatim>\<open>referenceImage\<close> is present, and the
  text-only path otherwise; nothing else in the configuration matters.  The path taken is
  visible in the one upstream call made: \<^verbatim>\<open>generateContent\<close> with the reference
  request, or \<^verbatim>\<open>generateImages\<close> with the text request.
\<close>

theorem generateImage_dispatch:
  "(referenceImage config \<noteq> None \<longrightarrow>
      generateImage ai config = generateWithReferenceImage ai config
      \<and> upstreamCalls (generateImage ai config) = [GenerateContent (referenceImageRequest config)])
   \<and> (referenceImage config = None \<longrightarrow>
      generateImage ai config = generateTextToImage ai config
      \<and> upstreamCalls (generateImage ai config) = [GenerateImages (textToImageRequest config)])"
  by (auto simp: generateImage_def generateWithReferenceImage_def generateTextToImage_def Let_def)

theorem generateImage_dispatch_witness:
  "referenceImage sampleConfigWithReference \<noteq> None
   \<and> upstreamCalls (generateImage (throwingAi (Thrown None)) sampleConfigWithReference)
       = [GenerateContent
            \<lparr>gc_model = ''gemini-2.5-flash-image'',
             gc_parts = [InlineDataPart ''QUJD'' ''image/png'', TextPart ''a red fox''],
             gc_responseModalities = [''IMAGE'']\<rparr>]
   \<and> referenceImage sampleConfig = None
   \<and> upstreamCalls (generateImage (throwingAi (Thrown None)) sampleConfig)
       = [GenerateImages
            \<lparr>gi_model = ''imagen-4.0-generate-001'', gi_prompt = ''a red fox'',
             gi_numberOfImages = 1, gi_outputMimeType = ''image/jpeg'',
             gi_aspectRatio = AR_16_9\<rparr>]"
proof -
  have h1: "referenceImage sampleConfigWithReference \<noteq> None"
    by (simp add: sampleConfigWithReference_def)
  have h2: "referenceImage sampleConfig = None"
    by (simp add: sampleConfig_def)
  have c1: "upstreamCalls (generateImage (throwingAi (Thrown None)) sampleConfigWithReference)
      = [GenerateContent (referenceImageRequest sampleConfigWithReference)]"
    using generateImage_dispatch [of sampleConfigWithReference "throwingAi (Thrown None)"] h1
    by blast
  have c2: "upstreamCalls (generateImage (throwingAi (Thrown None)) sampleConfig)
      = [GenerateImages (textToImageRequest sampleConfig)]"
    using generateImage_dispatch [of sampleConfig "throwingAi (Thrown None)"] h2
    by blast
  have r1: "referenceImageRequest sampleConfigWithReference =
      \<lparr>gc_model = ''gemini-2.5-flash-image'',
       gc_parts = [InlineDataPart ''QUJD'' ''image/png'', TextPart ''a red fox''],
       gc_responseModalities = [''IMAGE'']\<rparr>"
    by (simp add: referenceImageRequest_def sampleConfigWithReference_def sampleConfig_def
        sampleReference_def)
  have r2: "textToImageRequest sampleConfig =
      \<lparr>gi_model = ''imagen-4.0-generate-001'', gi_prompt = ''a red fox'',
       gi_numberOfImages = 1, gi_outputMimeType = ''image/jpeg'',
       gi_aspectRatio = AR_16_9\<rparr>"
    by (simp add: textToImageRequest_def sampleConfig_def)
  show ?thesis
    using h1 h2 c1 c2 by (simp only: r1 r2 simp_thms)
qed

text \<open>
  Claim C9.  Two configurations with a reference image that differ only in
  \<^verbatim>\<open>aspectRatio\<close> make \<^verbatim>\<open>generateWithReferenceImage\<close> send the same request, and
  with the same upstream client the whole outcome (upstream call, events, result or
  error) is the same.
\<close>

theorem reference_path_ignores_aspectRatio:
  "referenceImage config \<noteq> None \<Longrightarrow>
     referenceImageRequest (config\<lparr>aspectRatio := ratio\<rparr>) = referenceImageRequest config
     \<and> generateWithReferenceImage ai (config\<lparr>aspectRatio := ratio\<rparr>)
         = generateWithReferenceImage ai config"
  by (simp add: generateWithReferenceImage_def referenceImageRequest_def)

theorem reference_path_ignores_aspectRatio_witness:
  "referenceImage sampleConfigWithReference \<noteq> None
   \<and> aspectRatio (sampleConfigWithReference\<lparr>aspectRatio := AR_1_1\<rparr>) \<noteq> aspectRatio sampleConfigWithReference
   \<and> generateWithReferenceImage
        (answeringAi emptyImagesResponse (emptyContentResponse\<lparr>candidates := Some [textOnlyCandidate]\<rparr>))
        (sampleConfigWithReference\<lparr>aspectRatio := AR_1_1\<rparr>)
     = generateWithReferenceImage
        (answeringAi emptyImagesResponse (emptyContentResponse\<lparr>candidates := Some [textOnlyCandidate]\<rparr>))
        sampleConfigWithReference"
proof -
  have h: "referenceImage sampleConfigWithReference \<noteq> None"
    by (simp add: sampleConfigWithReference_def)
  have d: "aspectRatio (sampleConfigWithReference\<lparr>aspectRatio := AR_1_1\<rparr>) \<noteq> aspectRatio sampleConfigWithReference"
    by (simp add: sampleConfigWithReference_def sampleConfig_def)
  show ?thesis
    using h d reference_path_ignores_aspectRatio [OF h, of AR_1_1
        "answeringAi emptyImagesResponse (emptyContentResponse\<lparr>candidates := Some [textOnlyCandidate]\<rparr>)"]
    by simp
qed

text \<open>By contrast, the text-only request carries the aspect ratio.\<close>

lemma text_path_honours_aspectRatio:
  "textToImageRequest (sampleConfig\<lparr>aspectRatio := AR_1_1\<rparr>) \<noteq> textToImageRequest sampleConfig"
  by (simp add: textToImageRequest_def sampleConfig_def)

section \<open>Properties of the component\<close>

text \<open>
  Claim C7.  \<^verbatim>\<open>JSON.parse\<close> rejects the empty text; under that fact about the
  environment, for every stored text: if parsing it throws, the initializer returns the
  empty list; if parsing it returns a list, the initializer returns that list.  For every
  outcome of reading the storage the initializer returns a value: no error leaves it.
\<close>

theorem history_initializer_recovers:
  assumes "isl (JSON_parse [])"
  shows "(isl (JSON_parse text) \<longrightarrow> historyInitializer JSON_parse (Inr (Some text)) = Inr [])
       \<and> (JSON_parse text = Inr parsed \<longrightarrow> historyInitializer JSON_parse (Inr (Some text)) = Inr parsed)
       \<and> \<not> isl (historyInitializer JSON_parse stored)"
  using assms
  by (auto simp: historyInitializer_def isl_def split: sum.splits option.splits)

theorem history_initializer_recovers_witness:
  "isl (sampleParse [])
   \<and> isl (sampleParse ''[{oops'')
   \<and> historyInitializer sampleParse (Inr (Some ''[{oops'')) = Inr []
   \<and> sampleParse sampleStored = Inr [sampleItem ''data:a'' ''p'']
   \<and> historyInitializer sampleParse (Inr (Some sampleStored)) = Inr [sampleItem ''data:a'' ''p'']"
proof -
  have h: "isl (sampleParse [])"
    by (simp add: sampleParse_def sampleStored_def)
  have a: "isl (sampleParse ''[{oops'')"
    by (simp add: sampleParse_def sampleStored_def)
  have b: "sampleParse sampleStored = Inr [sampleItem ''data:a'' ''p'']"
    by (simp add: sampleParse_def)
  show ?thesis
    using h a b
      history_initializer_recovers [of sampleParse "''[{oops''", OF h]
      history_initializer_recovers [of sampleParse sampleStored "[sampleItem ''data:a'' ''p'']", OF h]
    by simp
qed

text \<open>
  Claim C10.  Whenever \<^verbatim>\<open>handleGenerateImage\<close> starts a generation (the prompt is
  not blank): with an image style other than \<^verbatim>\<open>default\<close> the prompt passed to
  \<^verbatim>\<open>generateImage\<close> is the user's prompt followed by ", in a <style> style"; with
  the style \<^verbatim>\<open>default\<close> it is the user's prompt unchanged; and when the generation
  succeeds the new first history entry holds the resulting image together with the
  user's prompt as typed and the style.
\<close>

theorem styled_prompt_sent_plain_prompt_stored:
  assumes "currentPrompt = (case options of Some opts \<Rightarrow> opt_p opts | None \<Rightarrow> st_prompt st)"
    and "currentImageStyle = (case options of Some opts \<Rightarrow> opt_is opts | None \<Rightarrow> st_imageStyle st)"
    and "js_trim currentPrompt \<noteq> []"
  shows "(currentImageStyle \<noteq> ''default'' \<longrightarrow>
            map prompt (generateImageCalls (handleGenerateImage generate options st))
              = [currentPrompt @ '', in a '' @ currentImageStyle @ '' style''])
       \<and> (currentImageStyle = ''default'' \<longrightarrow>
            map prompt (generateImageCalls (handleGenerateImage generate options st))
              = [currentPrompt])
       \<and> (\<forall>config url.
            generateImageCalls (handleGenerateImage generate options st) = [config]
            \<and> settled (generate config) = Inr url
            \<longrightarrow> (\<exists>item rest.
                  history (finalState (handleGenerateImage generate options st)) = item # rest
                  \<and> imageUrl item = url
                  \<and> item_prompt item = currentPrompt
                  \<and> imageStyle item = currentImageStyle))"
  using assms
  by (auto simp: handleGenerateImage_def Let_def recordHistory_def split: option.splits sum.splits)

theorem styled_prompt_sent_plain_prompt_stored_witness:
  "js_trim (st_prompt sampleState) \<noteq> []
   \<and> st_imageStyle sampleState \<noteq> ''default''
   \<and> map prompt (generateImageCalls (handleGenerateImage resolvingGenerate None sampleState))
       = [''a red fox, in a cartoon style'']
   \<and> map item_prompt (history (finalState (handleGenerateImage resolvingGenerate None sampleState)))
       = [''a red fox'']"
proof -
  have t: "js_trim (st_prompt sampleState) \<noteq> []"
    by (simp add: sampleState_def js_trim_def js_isWhiteSpace_def)
  have s: "st_imageStyle sampleState \<noteq> ''default''"
    by (simp add: sampleState_def)
  have c: "map prompt (generateImageCalls (handleGenerateImage resolvingGenerate None sampleState))
       = [st_prompt sampleState @ '', in a '' @ st_imageStyle sampleState @ '' style'']"
    using styled_prompt_sent_plain_prompt_stored
      [where options = None and st = sampleState and generate = resolvingGenerate
         and currentPrompt = "st_prompt sampleState"
         and currentImageStyle = "st_imageStyle sampleState"] t s
    by simp
  have h: "map item_prompt (history (finalState (handleGenerateImage resolvingGenerate None sampleState)))
       = [''a red fox'']"
    by (simp add: handleGenerateImage_def sampleState_def resolvingGenerate_def recordHistory_def
        js_trim_def js_isWhiteSpace_def Let_def)
  show ?thesis
    using t s c h by (simp add: sampleState_def)
qed

text \<open>
  A prompt that is blank after trimming starts no generation; a prompt made of a
  no-break space is such a prompt.
\<close>

lemma trim_no_break_space: "js_trim [CHR 0xA0] = []"
  by (simp add: js_trim_def js_isWhiteSpace_def)

lemma trim_mixed_white_space: "js_trim ([CHR 0xA0] @ '' a b '' @ [CHR 0xA0, CHR 0x09]) = ''a b''"
  by (simp add: js_trim_def js_isWhiteSpace_def)

lemma blank_prompt_refused:
  assumes "currentPrompt = (case options of Some opts \<Rightarrow> opt_p opts | None \<Rightarrow> st_prompt st)"
    and "js_trim currentPrompt = []"
  shows "generateImageCalls (handleGenerateImage generate options st) = []"
    and "finalState (handleGenerateImage generate options st)
           = st\<lparr>st_error := Some ''Please enter a prompt to generate an image.''\<rparr>"
  using assms by (simp_all add: handleGenerateImage_def Let_def)

lemma no_break_space_prompt_refused:
  "generateImageCalls (handleGenerateImage generate None (sampleState\<lparr>st_prompt := [CHR 0xA0]\<rparr>)) = []"
  by (simp add: blank_prompt_refused(1) [where currentPrompt = "[CHR 0xA0]"] trim_no_break_space)

end
